theory Spec2Isabelle
  imports Complex_Main
begin

section \<open>Numbers and particle buffers\<close>

text \<open>
  The scene is JavaScript. A finite JavaScript number is modelled as a \<^typ>\<open>real\<close> and
  the arithmetic on doubles as the arithmetic on reals.
  \<open>Math.sin\<close>, \<open>Math.cos\<close>, \<open>Math.max\<close>, \<open>Math.min\<close> and \<open>Math.abs\<close> are \<^const>\<open>sin\<close>,
  \<^const>\<open>cos\<close>, \<^const>\<open>max\<close>, \<^const>\<open>min\<close> and \<^const>\<open>abs\<close>.

  Both firefly classes keep parallel typed arrays: \<open>positions\<close> and \<open>velocities\<close> of
  length \<open>3 * count\<close> and \<open>phases\<close> of length \<open>count\<close>. Every loop body touches the
  indices \<open>i3 = 3 * i\<close>, \<open>i3 + 1\<close>, \<open>i3 + 2\<close> of the first two and \<open>i\<close> of the third,
  and nothing else, so the arrays are kept as one record per index \<open>i\<close>:
  \<open>px\<close>, \<open>py\<close>, \<open>pz\<close> are \<open>positions[i3]\<close>, \<open>positions[i3 + 1]\<close>, \<open>positions[i3 + 2]\<close>;
  \<open>vx\<close>, \<open>vy\<close>, \<open>vz\<close> the same entries of \<open>velocities\<close>; \<open>phase\<close> is \<open>phases[i]\<close>.
  The length of the list is the particle count.
\<close>

record particle =
  px :: real
  py :: real
  pz :: real
  vx :: real
  vy :: real
  vz :: real
  phase :: real

subsection \<open>Stores into a Float32Array\<close>

text \<open>
  The buffers are \<open>Float32Array\<close>s: a store rounds the number to the nearest
  single-precision value, ties to the even significand, as \<open>Math.fround\<close> does.
  \<open>float32_exponent\<close> is the binary exponent of the number, not below that of the
  smallest normal number; the numbers of that binade are the multiples of
  \<open>2 ^ (exponent - 23)\<close>. \<open>fround\<close> covers the numbers whose magnitude a
  single-precision number can hold.

  The rounding is written out where the limit on a stored value is in question, at the
  velocity stores of \<open>attractToPoint\<close>. The other stores are kept exact, as the
  arithmetic on doubles is.
\<close>

definition round_half_even :: "real \<Rightarrow> int" where
  "round_half_even r =
     (let f = \<lfloor>r\<rfloor>;
          d = r - of_int f
      in if d < 1 / 2 then f else if d > 1 / 2 then f + 1 else if even f then f else f + 1)"

definition float32_exponent :: "real \<Rightarrow> int" where
  "float32_exponent v = max (- 126) \<lfloor>log 2 \<bar>v\<bar>\<rfloor>"

definition fround :: "real \<Rightarrow> real" where
  "fround v =
     (if v = 0 then 0
      else let q = 2 powi (float32_exponent v - 23)
           in of_int (round_half_even (v / q)) * q)"

section \<open>fireflies.js: class FireflySystem (50 particles by default)\<close>

text \<open>
  \<open>time\<close> is \<open>this.time\<close>; \<open>material_size\<close> and \<open>material_opacity\<close> are
  \<open>this.material.size\<close> and \<open>this.material.opacity\<close>. The per-particle \<open>sizes\<close> and
  \<open>opacity\<close> arrays are written once by \<open>initializeParticles\<close> and never read again, so
  they are left out.
\<close>

record firefly_system =
  particles :: "particle list"
  time :: real
  material_size :: real
  material_opacity :: real

subsection \<open>attractToPoint(x, y, z, strength)\<close>

text \<open>
  The loop body of \<open>attractToPoint\<close>: the force is added and stored, then each axis is
  limited and stored again. A sum too large for single precision would be stored as an
  infinity, which the limit that follows replaces by \<open>maxVel\<close> as it does any large
  number, so the first store needs no infinity here.
\<close>

definition maxVel :: real where
  "maxVel = 0.05"

definition attract_particle :: "real \<Rightarrow> real \<Rightarrow> real \<Rightarrow> real \<Rightarrow> particle \<Rightarrow> particle" where
  "attract_particle x y z strength p =
     (let dx = x - px p;
          dy = y - py p;
          dz = z - pz p;
          p1 = p\<lparr>vx := fround (vx p + dx * strength),
                 vy := fround (vy p + dy * strength),
                 vz := fround (vz p + dz * strength)\<rparr>
      in p1\<lparr>vx := fround (max (- maxVel) (min maxVel (vx p1))),
             vy := fround (max (- maxVel) (min maxVel (vy p1))),
             vz := fround (max (- maxVel) (min maxVel (vz p1)))\<rparr>)"

definition attractToPoint :: "real \<Rightarrow> real \<Rightarrow> real \<Rightarrow> real \<Rightarrow> firefly_system \<Rightarrow> firefly_system" where
  "attractToPoint x y z strength s =
     s\<lparr>particles :=
         map (\<lambda>i. attract_particle x y z strength (particles s ! i)) [0..<length (particles s)]\<rparr>"

subsection \<open>setScrollProgress(progress)\<close>

definition setScrollProgress :: "real \<Rightarrow> firefly_system \<Rightarrow> firefly_system" where
  "setScrollProgress progress s =
     (if progress < 0.3 then
        s\<lparr>material_size := 0.8 + sin (time s * 3) * 0.2,
          material_opacity := 0.8 + sin (time s * 2) * 0.2\<rparr>
      else if progress < 0.6 then
        (attractToPoint 2 0 (- 3) 0.001 s)\<lparr>material_size := 1.0, material_opacity := 0.9\<rparr>
      else
        s\<lparr>material_size := 1.2 + sin (time s * 4) * 0.3, material_opacity := 1.0\<rparr>)"

subsection \<open>update()\<close>

text \<open>
  The loop body of \<open>update\<close> in four parts, in the order of the source: the velocity is
  added to the position, the floating motion is added, the position is wrapped, and the
  direction is resampled now and then. The argument \<open>t\<close> is \<open>this.time\<close> after its
  increment.
\<close>

definition integrate :: "real \<Rightarrow> particle \<Rightarrow> particle" where
  "integrate t p =
     (let p1 = p\<lparr>px := px p + vx p, py := py p + vy p, pz := pz p + vz p\<rparr>;
          ph = phase p1 + t * 0.5;
          p2 = p1\<lparr>py := py p1 + sin ph * 0.003\<rparr>;
          p3 = p2\<lparr>px := px p2 + cos (ph * 0.7) * 0.002\<rparr>
      in p3\<lparr>pz := pz p3 + sin (ph * 0.3) * 0.002\<rparr>)"

definition wrap_bounds :: "particle \<Rightarrow> particle" where
  "wrap_bounds p =
     (let p1 = (if px p > 10 then p\<lparr>px := - 10\<rparr> else p);
          p2 = (if px p1 < - 10 then p1\<lparr>px := 10\<rparr> else p1);
          p3 = (if pz p2 > 10 then p2\<lparr>pz := - 10\<rparr> else p2);
          p4 = (if pz p3 < - 10 then p3\<lparr>pz := 10\<rparr> else p3);
          p5 = (if py p4 < 1 then p4\<lparr>py := 8\<rparr> else p4)
      in (if py p5 > 9 then p5\<lparr>py := 1\<rparr> else p5))"

text \<open>
  \<open>Math.random()\<close> is an input. One particle draws once for the test against \<open>0.005\<close>
  and three more times when the test succeeds; \<open>draws\<close> holds the four numbers, and the
  update takes one \<open>draws\<close> for each particle index.
\<close>

record draws =
  d_test :: real
  d_x :: real
  d_y :: real
  d_z :: real

definition change_direction :: "draws \<Rightarrow> particle \<Rightarrow> particle" where
  "change_direction d p =
     (if d_test d < 0.005 then
        p\<lparr>vx := (d_x d - 0.5) * 0.02, vy := (d_y d - 0.5) * 0.01, vz := (d_z d - 0.5) * 0.02\<rparr>
      else p)"

definition FireflySystem_update :: "(nat \<Rightarrow> draws) \<Rightarrow> firefly_system \<Rightarrow> firefly_system" where
  "FireflySystem_update rnd s =
     (let t = time s + 0.016;
          ps = map (\<lambda>i. change_direction (rnd i) (wrap_bounds (integrate t (particles s ! i))))
                 [0..<length (particles s)];
          pulseIntensity = 0.3 + 0.4 * sin (t * 2)
      in s\<lparr>time := t, particles := ps, material_opacity := pulseIntensity\<rparr>)"

text \<open>Frame after frame: frame \<open>k\<close> uses the draws \<open>rnd k\<close>.\<close>

fun run_frames :: "(nat \<Rightarrow> nat \<Rightarrow> draws) \<Rightarrow> nat \<Rightarrow> firefly_system \<Rightarrow> firefly_system" where
  "run_frames rnd 0 s = s"
| "run_frames rnd (Suc n) s = FireflySystem_update (rnd n) (run_frames rnd n s)"

section \<open>professional/FirefliesSystem.js: class FirefliesSystem (200 particles)\<close>

text \<open>
  \<open>fireflies\<close> holds the \<open>position\<close>, \<open>velocity\<close> and \<open>phase\<close> attributes of
  \<open>fireflyGeometry\<close>; \<open>sim_time\<close> is \<open>this.time\<close> and \<open>speed\<close> is \<open>this.speed\<close> (0.5);
  \<open>uniform_time\<close> and \<open>uniform_glowIntensity\<close> are the shader uniforms and
  \<open>points_opacity\<close> is \<open>this.fireflies.material.opacity\<close>.
\<close>

record fireflies_system =
  fireflies :: "particle list"
  sim_time :: real
  speed :: real
  uniform_time :: real
  uniform_glowIntensity :: real
  points_opacity :: real

subsection \<open>update(deltaTime)\<close>

definition float_particle :: "real \<Rightarrow> particle \<Rightarrow> particle" where
  "float_particle t p =
     (let p1 = p\<lparr>px := px p + (vx p + sin (t + phase p) * 0.01)\<rparr>;
          p2 = p1\<lparr>py := py p1 + (vy p1 + cos (t * 0.7 + phase p1) * 0.005)\<rparr>
      in p2\<lparr>pz := pz p2 + (vz p2 + sin (t * 0.8 + phase p2) * 0.01)\<rparr>)"

definition reflect_bounds :: "particle \<Rightarrow> particle" where
  "reflect_bounds p =
     (let p1 = (if \<bar>px p\<bar> > 20 then p\<lparr>vx := vx p * (- 1)\<rparr> else p);
          p2 = (if py p1 < 1 \<or> py p1 > 16 then p1\<lparr>vy := vy p1 * (- 1)\<rparr> else p1)
      in (if \<bar>pz p2\<bar> > 20 then p2\<lparr>vz := vz p2 * (- 1)\<rparr> else p2))"

definition FirefliesSystem_update :: "real \<Rightarrow> fireflies_system \<Rightarrow> fireflies_system" where
  "FirefliesSystem_update deltaTime s =
     (let t = sim_time s + deltaTime * speed s;
          ps = map (\<lambda>i. reflect_bounds (float_particle t (fireflies s ! i)))
                 [0..<length (fireflies s)]
      in s\<lparr>sim_time := t, uniform_time := t, fireflies := ps\<rparr>)"

subsection \<open>updateIntensity(progress)\<close>

definition updateIntensity :: "real \<Rightarrow> fireflies_system \<Rightarrow> fireflies_system" where
  "updateIntensity progress s =
     (let intensity = max 0.2 (1 - progress * 0.8)
      in s\<lparr>uniform_glowIntensity := intensity, points_opacity := intensity\<rparr>)"

subsection \<open>update(deltaTime) over all JavaScript numbers\<close>


















section \<open>professional/ScrollAnimations.js: class ScrollAnimations\<close>

text \<open>
  A model of the scene graph is its \<open>visible\<close> flag, its \<open>scale\<close> and the two Euler
  angles the code writes. \<open>blueFlower\<close> is \<open>assetManager.getAsset("blueFlower")\<close>,
  absent while the asset is not loaded; \<open>scene_fog\<close> is \<open>this.scene.fog\<close>.
\<close>

record model3d =
  visible :: bool
  scale :: "real \<times> real \<times> real"
  rotation_x :: real
  rotation_y :: real

record fog =
  near :: real
  far :: real

record scroll_animations =
  scrollProgress :: real
  lastLoggedProgress :: real
  videoTriggered :: bool
  firefliesSystem :: fireflies_system
  blueFlower :: "model3d option"
  scene_fog :: "fog option"

subsection \<open>updateScene(progress)\<close>

text \<open>\<open>AssetManager.updateVisibility\<close>: the flower, when loaded, is shown at scale 2.5.\<close>

definition updateVisibility :: "real \<Rightarrow> model3d option \<Rightarrow> model3d option" where
  "updateVisibility progress flowerAsset =
     (case flowerAsset of
        None \<Rightarrow> None
      | Some m \<Rightarrow> Some (m\<lparr>visible := True, scale := (2.5, 2.5, 2.5)\<rparr>))"

definition updateScene :: "real \<Rightarrow> scroll_animations \<Rightarrow> scroll_animations" where
  "updateScene progress s =
     (let s1 = s\<lparr>firefliesSystem := updateIntensity progress (firefliesSystem s)\<rparr>;
          s2 = s1\<lparr>blueFlower := updateVisibility progress (blueFlower s1)\<rparr>
      in (case scene_fog s2 of
            None \<Rightarrow> s2
          | Some f \<Rightarrow>
              s2\<lparr>scene_fog := Some (f\<lparr>near := 50 - progress * 30, far := 200 - progress * 50\<rparr>)\<rparr>))"

subsection \<open>The scroll trigger's callbacks\<close>

text \<open>
  What a callback does outside the object is an effect: a line on the console, a call of
  \<open>redirectToVideoPage\<close>, or a timer that will call it. \<open>SetTimeoutRedirect 100\<close> is
  \<open>setTimeout(() => this.redirectToVideoPage(), 100)\<close>. \<open>LogProgress progress\<close> is
  the debug line written for \<open>progress\<close>; the percentage in its text is formed from
  \<open>progress\<close> by the console call and is not part of the model.
\<close>

datatype effect =
  LogProgress real
| LogTriggering
| SetTimeoutRedirect nat
| RedirectToVideoPage

definition onUpdate :: "real \<Rightarrow> scroll_animations \<Rightarrow> scroll_animations \<times> effect list" where
  "onUpdate progress s =
     (let s1 = s\<lparr>scrollProgress := progress\<rparr>;
          s2 = updateScene progress s1;
          (s3, logged) =
            (if \<lfloor>progress * 10\<rfloor> \<noteq> \<lfloor>lastLoggedProgress s2 * 10\<rfloor>
             then (s2\<lparr>lastLoggedProgress := progress\<rparr>, [LogProgress progress])
             else (s2, []))
      in if progress \<ge> 0.95 \<and> \<not> videoTriggered s3
         then (s3\<lparr>videoTriggered := True\<rparr>, logged @ [LogTriggering, SetTimeoutRedirect 100])
         else (s3, logged))"

definition onComplete :: "scroll_animations \<Rightarrow> scroll_animations \<times> effect list" where
  "onComplete s =
     (if \<not> videoTriggered s
      then (s\<lparr>videoTriggered := True\<rparr>, [RedirectToVideoPage])
      else (s, []))"

text \<open>
  The scroll library calls \<open>onUpdate\<close> with the new progress on every scroll change and
  \<open>onComplete\<close> when the scroll reaches its end. A scene lifetime is a list of such calls,
  run from the state the constructor leaves.
\<close>

datatype event = OnUpdate real | OnComplete

fun handle :: "event \<Rightarrow> scroll_animations \<Rightarrow> scroll_animations \<times> effect list" where
  "handle (OnUpdate progress) s = onUpdate progress s"
| "handle OnComplete s = onComplete s"

fun run :: "event list \<Rightarrow> scroll_animations \<Rightarrow> scroll_animations \<times> effect list" where
  "run [] s = (s, [])"
| "run (e # es) s =
     (let (s1, out1) = handle e s;
          (s2, out2) = run es s1
      in (s2, out1 @ out2))"

fun is_redirect :: "effect \<Rightarrow> bool" where
  "is_redirect (SetTimeoutRedirect d) = True"
| "is_redirect RedirectToVideoPage = True"
| "is_redirect (LogProgress n) = False"
| "is_redirect LogTriggering = False"

definition redirects :: "effect list \<Rightarrow> nat" where
  "redirects out = length (filter is_redirect out)"

fun reaches_threshold :: "event \<Rightarrow> bool" where
  "reaches_threshold (OnUpdate progress) = (progress \<ge> 0.95)"
| "reaches_threshold OnComplete = True"

text \<open>The state after the constructor: nothing scrolled, nothing triggered.\<close>

definition constructed :: "fireflies_system \<Rightarrow> model3d option \<Rightarrow> fog option \<Rightarrow> scroll_animations" where
  "constructed ff flower fg =
     \<lparr>scrollProgress = 0, lastLoggedProgress = 0, videoTriggered = False,
      firefliesSystem = ff, blueFlower = flower, scene_fog = fg\<rparr>"

section \<open>animations.js: class ScrollAnimations\<close>

text \<open>
  \<open>camera_position\<close> and \<open>camera_rotation\<close> are the camera's pose; the three models may be
  absent (\<open>null\<close>); \<open>app_fireflies\<close> is \<open>window.app.fireflies\<close>, absent when \<open>window.app\<close>
  or the field is not set. \<open>Date.now()\<close> is the argument \<open>now\<close>.
\<close>

record scroll_scene =
  camera_position :: "real \<times> real \<times> real"
  camera_rotation :: "real \<times> real \<times> real"
  forestModel :: "model3d option"
  orangeModel :: "model3d option"
  logoModel :: "model3d option"
  app_fireflies :: "firefly_system option"

text \<open>\<open>adjustLighting\<close> computes two local constants and stores nothing.\<close>

definition adjustLighting :: "real \<Rightarrow> scroll_scene \<Rightarrow> scroll_scene" where
  "adjustLighting progress s =
     (let intensity = 0.8 + progress * 0.4;
          warmth = progress
      in s)"

definition updateModelVisibility :: "real \<Rightarrow> real \<Rightarrow> scroll_scene \<Rightarrow> scroll_scene" where
  "updateModelVisibility now progress s =
     (let s1 = (case forestModel s of
                  None \<Rightarrow> s
                | Some m \<Rightarrow> s\<lparr>forestModel := Some (m\<lparr>visible := (progress < 0.8)\<rparr>)\<rparr>);
          s2 = (case orangeModel s1 of
                  None \<Rightarrow> s1
                | Some m \<Rightarrow>
                    if visible m
                    then s1\<lparr>orangeModel := Some (m\<lparr>rotation_y := rotation_y m + 0.01\<rparr>)\<rparr>
                    else s1)
      in (case logoModel s2 of
            None \<Rightarrow> s2
          | Some m \<Rightarrow>
              if visible m
              then s2\<lparr>logoModel :=
                        Some (m\<lparr>rotation_y := rotation_y m + 0.02,
                                rotation_x := sin (now * 0.001) * 0.1\<rparr>)\<rparr>
              else s2))"

definition handleScrollProgress :: "real \<Rightarrow> real \<Rightarrow> scroll_scene \<Rightarrow> scroll_scene" where
  "handleScrollProgress now progress s =
     (let s1 = (case app_fireflies s of
                  None \<Rightarrow> s
                | Some f \<Rightarrow> s\<lparr>app_fireflies := Some (setScrollProgress progress f)\<rparr>);
          s2 = adjustLighting progress s1
      in updateModelVisibility now progress s2)"

section \<open>Example states\<close>

text \<open>Small concrete scenes on which the theorems below are run.\<close>

definition example_particle :: particle where
  "example_particle = \<lparr>px = 0, py = 1, pz = 0, vx = 0, vy = 0, vz = 0, phase = 0\<rparr>"

definition example_swarm :: firefly_system where
  "example_swarm =
     \<lparr>particles = [example_particle], time = 0, material_size = 0.8, material_opacity = 0.8\<rparr>"

definition example_fireflies :: fireflies_system where
  "example_fireflies =
     \<lparr>fireflies = [\<lparr>px = 0, py = 5, pz = 0, vx = 0.01, vy = 0, vz = 0, phase = 0\<rparr>],
      sim_time = 0, speed = 0.5, uniform_time = 0, uniform_glowIntensity = 1, points_opacity = 1\<rparr>"

text \<open>
  A firefly of the 200-particle system as \<open>createFireflyParticles\<close> can place it:
  the height is drawn from \<open>[2, 17)\<close> and the vertical velocity from
  \<open>[-0.005, 0.005)\<close>.
\<close>

definition stray_firefly :: particle where
  "stray_firefly = \<lparr>px = 0, py = 16.5, pz = 0, vx = 0, vy = 0.004, vz = 0, phase = 0\<rparr>"

definition stray_system :: fireflies_system where
  "stray_system =
     \<lparr>fireflies = [stray_firefly], sim_time = 0, speed = 0.5, uniform_time = 0,
      uniform_glowIntensity = 1, points_opacity = 1\<rparr>"

text \<open>A particle that earlier attraction has brought close to the limit.\<close>

definition fast_swarm :: firefly_system where
  "fast_swarm =
     \<lparr>particles = [\<lparr>px = 0, py = 1, pz = 0, vx = 25 / 512, vy = 0, vz = 0, phase = 0\<rparr>],
      time = 0, material_size = 0.8, material_opacity = 0.8\<rparr>"

text \<open>Draws under which no particle changes direction.\<close>

definition example_draws :: "nat \<Rightarrow> nat \<Rightarrow> draws" where
  "example_draws k i = \<lparr>d_test = 0.5, d_x = 0.5, d_y = 0.5, d_z = 0.5\<rparr>"

text \<open>The scene as \<open>SceneManager\<close> sets it up: fog from 20 to 80, no flower loaded yet.\<close>

definition example_animations :: scroll_animations where
  "example_animations = constructed example_fireflies None (Some \<lparr>near = 20, far = 80\<rparr>)"

text \<open>
  A scene of \<open>animations.js\<close> with the orange shown and the logo hidden, and the same
  scene with the logo shown and the orange hidden.
\<close>

definition example_model :: model3d where
  "example_model = \<lparr>visible = True, scale = (1, 1, 1), rotation_x = 0, rotation_y = 0\<rparr>"

definition example_scene :: scroll_scene where
  "example_scene =
     \<lparr>camera_position = (0, 2, 8), camera_rotation = (0, 0, 0),
      forestModel = Some example_model,
      orangeModel = Some example_model,
      logoModel = Some (example_model\<lparr>visible := False\<rparr>),
      app_fireflies = Some example_swarm\<rparr>"

definition example_scene_logo :: scroll_scene where
  "example_scene_logo =
     example_scene\<lparr>orangeModel := Some (example_model\<lparr>visible := False\<rparr>),
                   logoModel := Some example_model\<rparr>"

definition example_scroll :: "event list" where
  "example_scroll =
     [OnUpdate 0.5, OnUpdate 0.96, OnUpdate 0.94, OnUpdate 0.97, OnComplete, OnUpdate 1, OnComplete]"

section \<open>Properties of FireflySystem\<close>

subsection \<open>Rounding to single precision\<close>

lemma float32_exponent_binade:
  assumes "2 powi k \<le> \<bar>v\<bar>" "\<bar>v\<bar> < 2 powi (k + 1)" "- 126 \<le> k"
  shows "float32_exponent v = k"
proof -
  have pos: "0 < \<bar>v\<bar>"
    using assms(1) zero_less_power_int [of "2::real" k] by linarith
  have p1: "2 powr (of_int k) = (2::real) powi k"
    and p2: "2 powr (of_int (k + 1)) = (2::real) powi (k + 1)"
    by (rule powr_real_of_int'; simp)+
  have "2 powr (of_int k) \<le> \<bar>v\<bar> \<and> \<bar>v\<bar> < 2 powr (of_int (k + 1))"
    unfolding p1 p2 using assms(1,2) by simp
  then have "\<lfloor>log 2 \<bar>v\<bar>\<rfloor> = k"
    using floor_log_eq_powr_iff [of "\<bar>v\<bar>" 2 k] pos by simp
  then show ?thesis using assms(3) by (simp add: float32_exponent_def)
qed

lemma fround_binade:
  assumes "2 powi k \<le> \<bar>v\<bar>" "\<bar>v\<bar> < 2 powi (k + 1)" "- 126 \<le> k"
  shows "fround v = of_int (round_half_even (v / 2 powi (k - 23))) * 2 powi (k - 23)"
proof -
  have "0 < (2::real) powi k" by simp
  with assms(1) have "0 < \<bar>v\<bar>" by linarith
  then have "v \<noteq> 0" by auto
  then show ?thesis
    by (simp add: fround_def Let_def float32_exponent_binade [OF assms])
qed

lemma round_half_even_le: "r \<le> of_int N \<Longrightarrow> round_half_even r \<le> N"
proof -
  assume a: "r \<le> of_int N"
  then have f: "\<lfloor>r\<rfloor> \<le> N" by (simp add: floor_le_iff)
  show ?thesis
  proof (cases "\<lfloor>r\<rfloor> = N")
    case True
    then have "r - of_int \<lfloor>r\<rfloor> \<le> 0" using a by simp
    then show ?thesis using True by (simp add: round_half_even_def Let_def)
  next
    case False
    then have "\<lfloor>r\<rfloor> + 1 \<le> N" using f by simp
    then show ?thesis by (auto simp: round_half_even_def Let_def)
  qed
qed

lemma round_half_even_ge: "of_int N \<le> r \<Longrightarrow> N \<le> round_half_even r"
proof -
  assume "of_int N \<le> r"
  then have "N \<le> \<lfloor>r\<rfloor>" by (simp add: le_floor_iff)
  then show ?thesis by (auto simp: round_half_even_def Let_def)
qed

lemma float32_exponent_small:
  assumes "v \<noteq> 0" "\<bar>v\<bar> \<le> 0.05"
  shows "float32_exponent v \<le> - 5" "- 126 \<le> float32_exponent v"
proof -
  have "\<bar>v\<bar> < 2 powr (- 4)"
    using assms(2) by (simp add: powr_minus_divide)
  then have "log 2 \<bar>v\<bar> < - 4"
    using assms(1) by (simp add: log_less_iff)
  then have "\<lfloor>log 2 \<bar>v\<bar>\<rfloor> \<le> - 5"
    by (simp add: floor_le_iff)
  then show "float32_exponent v \<le> - 5" by (simp add: float32_exponent_def)
  show "- 126 \<le> float32_exponent v" by (simp add: float32_exponent_def)
qed

lemma fround_clamped_range:
  assumes "\<bar>v\<bar> \<le> 0.05"
  shows "\<bar>fround v\<bar> \<le> 13421773 / 2 ^ 28"
proof (cases "v = 0")
  case True
  then show ?thesis by (simp add: fround_def)
next
  case False
  define n where "n = nat (- 5 - float32_exponent v)"
  have e: "float32_exponent v - 23 = - int (28 + n)"
    using float32_exponent_small [OF False assms] by (simp add: n_def)
  define q :: real where "q = 2 powi (float32_exponent v - 23)"
  have "q = inverse (2 ^ (28 + n))"
    unfolding q_def e by (simp only: power_int_minus power_int_of_nat)
  then have q: "q = 1 / (2 ^ 28 * 2 ^ n)"
    by (simp add: power_add inverse_eq_divide)
  have qpos: "0 < q" by (simp add: q)
  define N :: int where "N = 13421773 * 2 ^ n"
  have "\<bar>v / q\<bar> = \<bar>v\<bar> * 2 ^ 28 * 2 ^ n"
    by (simp add: q abs_mult)
  also have "\<dots> \<le> 0.05 * 2 ^ 28 * 2 ^ n"
    using assms by (simp add: mult_right_mono)
  also have "\<dots> \<le> 13421773 * 2 ^ n"
    by simp
  finally have b: "\<bar>v / q\<bar> \<le> of_int N" by (simp add: N_def)
  from b have b1: "v / q \<le> of_int N" and b2: "of_int (- N) \<le> v / q"
    by linarith+
  have "round_half_even (v / q) \<le> N" "- N \<le> round_half_even (v / q)"
    using round_half_even_le [OF b1] round_half_even_ge [OF b2] by blast+
  then have "\<bar>round_half_even (v / q)\<bar> \<le> N"
    by linarith
  then have "\<bar>of_int (round_half_even (v / q)) :: real\<bar> \<le> of_int N"
    by (metis of_int_abs of_int_le_iff)
  then have "\<bar>of_int (round_half_even (v / q)) * q\<bar> \<le> of_int N * q"
    using qpos by (simp add: abs_mult mult_right_mono)
  also have "of_int N * q = 13421773 / 2 ^ 28"
    by (simp add: N_def q)
  finally show ?thesis
    using False by (simp add: fround_def Let_def q_def)
qed

lemma fround_zero: "fround 0 = 0"
  by (simp add: fround_def)

text \<open>The stored values that the examples meet.\<close>

lemma fround_fast:
  "fround (25 / 512 + 1 / 500) = 13644071 / 2 ^ 28"
  by (simp add: fround_binade [of "- 5"] round_half_even_def Let_def power_int_minus)

lemma fround_limit:
  "fround (1 / 20) = 13421773 / 2 ^ 28"
  "fround (- (1 / 20)) = - (13421773 / 2 ^ 28)"
  by (simp_all add: fround_binade [of "- 5"] round_half_even_def Let_def power_int_minus)

lemma fround_large:
  "fround 10 = 10"
  "fround (- 1) = - 1"
  by (simp_all add: fround_binade [of 3] fround_binade [of 0] round_half_even_def Let_def
      power_int_minus)

lemma fround_small:
  "fround (1 / 500) = 8589935 / 2 ^ 32"
  "fround (8589935 / 4294967296) = 8589935 / 2 ^ 32"
  "fround (- (1 / 1000)) = - (8589935 / 2 ^ 33)"
  "fround (- (8589935 / 8589934592)) = - (8589935 / 2 ^ 33)"
  "fround (- (3 / 1000)) = - (6442451 / 2 ^ 31)"
  "fround (- (6442451 / 2147483648)) = - (6442451 / 2 ^ 31)"
  by (simp_all add: fround_binade [of "- 9"] fround_binade [of "- 10"]
      round_half_even_def Let_def power_int_minus)

text \<open>
  The same three components after a second attraction by \<open>(0.002, -0.001, -0.003)\<close>:
  the arguments are the sums \<open>8589935 / 2 ^ 32 + 0.002\<close>, \<open>- (8589935 / 2 ^ 33) - 0.001\<close>
  and \<open>- (6442451 / 2 ^ 31) - 0.003\<close> in lowest terms.
\<close>

lemma fround_small_twice:
  "fround (2147483699 / 536870912000) = 8589935 / 2 ^ 31"
  "fround (8589935 / 2147483648) = 8589935 / 2 ^ 31"
  "fround (- (2147483699 / 1073741824000)) = - (8589935 / 2 ^ 32)"
  "fround (- (8589935 / 4294967296)) = - (8589935 / 2 ^ 32)"
  "fround (- (1610612743 / 268435456000)) = - (6442451 / 2 ^ 30)"
  "fround (- (6442451 / 1073741824)) = - (6442451 / 2 ^ 30)"
  by (simp_all add: fround_binade [of "- 8"] fround_binade [of "- 9"]
      round_half_even_def Let_def power_int_minus)

subsection \<open>attractToPoint\<close>

lemma length_attractToPoint:
  "length (particles (attractToPoint x y z strength s)) = length (particles s)"
  by (simp add: attractToPoint_def)

lemma nth_attractToPoint:
  "i < length (particles s) \<Longrightarrow>
   particles (attractToPoint x y z strength s) ! i =
   attract_particle x y z strength (particles s ! i)"
  by (simp add: attractToPoint_def)

lemma limit_velocity_range:
  "\<bar>fround (max (- maxVel) (min maxVel v))\<bar> \<le> 13421773 / 2 ^ 28"
  by (rule fround_clamped_range) (auto simp: maxVel_def max_def min_def abs_le_iff)

lemma attract_particle_velocity:
  "vx (attract_particle x y z strength p) =
     fround (max (- maxVel) (min maxVel (fround (vx p + strength * (x - px p)))))"
  "vy (attract_particle x y z strength p) =
     fround (max (- maxVel) (min maxVel (fround (vy p + strength * (y - py p)))))"
  "vz (attract_particle x y z strength p) =
     fround (max (- maxVel) (min maxVel (fround (vz p + strength * (z - pz p)))))"
  by (simp_all add: attract_particle_def Let_def mult.commute)

lemma attract_particle_position:
  "px (attract_particle x y z strength p) = px p"
  "py (attract_particle x y z strength p) = py p"
  "pz (attract_particle x y z strength p) = pz p"
  "phase (attract_particle x y z strength p) = phase p"
  by (simp_all add: attract_particle_def Let_def)

text \<open>
  Claim C5 says that after \<open>attractToPoint\<close> every velocity component lies in
  \<open>[-0.05, 0.05]\<close>. The limit 0.05 is not a single-precision number, and the store
  rounds it up: called with target \<open>(10, 0, 0)\<close> and strength 1 on the particle of
  \<open>example_swarm\<close>, the x velocity is stored as \<open>13421773 / 2 ^ 28\<close>, above 0.05, and the
  y velocity as its negative, below -0.05. The call that \<open>setScrollProgress\<close> makes does
  the same to a particle that is already fast.
\<close>

theorem attractToPoint_limit_counterexample:
  "vx (particles (attractToPoint 10 0 0 1 example_swarm) ! 0) = 13421773 / 2 ^ 28
   \<and> \<not> vx (particles (attractToPoint 10 0 0 1 example_swarm) ! 0) \<le> 0.05
   \<and> vy (particles (attractToPoint 10 0 0 1 example_swarm) ! 0) = - (13421773 / 2 ^ 28)
   \<and> \<not> - 0.05 \<le> vy (particles (attractToPoint 10 0 0 1 example_swarm) ! 0)
   \<and> vx (particles (setScrollProgress 0.4 fast_swarm) ! 0) = 13421773 / 2 ^ 28"
proof -
  have p: "particles (attractToPoint 10 0 0 1 example_swarm) ! 0 =
      attract_particle 10 0 0 1 example_particle"
    by (simp add: nth_attractToPoint example_swarm_def)
  have a: "vx (particles (attractToPoint 10 0 0 1 example_swarm) ! 0) = 13421773 / 2 ^ 28"
    unfolding p attract_particle_velocity
    by (simp add: example_particle_def maxVel_def fround_large fround_limit)
  have b: "vy (particles (attractToPoint 10 0 0 1 example_swarm) ! 0) = - (13421773 / 2 ^ 28)"
    unfolding p attract_particle_velocity
    by (simp add: example_particle_def maxVel_def fround_large fround_limit)
  have "vx (particles (setScrollProgress 0.4 fast_swarm) ! 0) =
      fround (max (- maxVel) (min maxVel (fround (25 / 512 + 1 / 500))))"
    by (simp add: setScrollProgress_def nth_attractToPoint attract_particle_velocity fast_swarm_def)
  then have c: "vx (particles (setScrollProgress 0.4 fast_swarm) ! 0) = 13421773 / 2 ^ 28"
    by (simp only: fround_fast) (simp add: maxVel_def fround_limit)
  from a have a': "\<not> vx (particles (attractToPoint 10 0 0 1 example_swarm) ! 0) \<le> 0.05"
    by simp
  from b have b': "\<not> - 0.05 \<le> vy (particles (attractToPoint 10 0 0 1 example_swarm) ! 0)"
    by simp
  from a a' b b' c show ?thesis by blast
qed

text \<open>
  Claim C5 as amended. When \<open>attractToPoint\<close> is applied with target \<open>(x, y, z)\<close> and
  strength \<open>strength\<close>, the velocity of every particle is first incremented, component by
  component, by \<open>strength * (target - position)\<close> and stored, then limited to
  \<open>[-0.05, 0.05]\<close> and stored again. Each store rounds to single precision, so that
  afterwards every velocity component lies within \<open>13421773 / 2 ^ 28\<close> of zero, the
  single-precision number nearest to 0.05 (about 0.0500000007), whatever the velocity was
  before. The particle count does not change.
\<close>

theorem attractToPoint_force_then_clamp:
  assumes "i < length (particles s)"
  shows "vx (particles (attractToPoint x y z strength s) ! i) =
           fround (max (- 0.05) (min 0.05
             (fround (vx (particles s ! i) + strength * (x - px (particles s ! i))))))
       \<and> vy (particles (attractToPoint x y z strength s) ! i) =
           fround (max (- 0.05) (min 0.05
             (fround (vy (particles s ! i) + strength * (y - py (particles s ! i))))))
       \<and> vz (particles (attractToPoint x y z strength s) ! i) =
           fround (max (- 0.05) (min 0.05
             (fround (vz (particles s ! i) + strength * (z - pz (particles s ! i))))))
       \<and> \<bar>vx (particles (attractToPoint x y z strength s) ! i)\<bar> \<le> 13421773 / 2 ^ 28
       \<and> \<bar>vy (particles (attractToPoint x y z strength s) ! i)\<bar> \<le> 13421773 / 2 ^ 28
       \<and> \<bar>vz (particles (attractToPoint x y z strength s) ! i)\<bar> \<le> 13421773 / 2 ^ 28
       \<and> fround 0.05 = 13421773 / 2 ^ 28
       \<and> length (particles (attractToPoint x y z strength s)) = length (particles s)"
proof -
  let ?q = "particles (attractToPoint x y z strength s) ! i"
  have q: "?q = attract_particle x y z strength (particles s ! i)"
    using assms by (rule nth_attractToPoint)
  have eqs: "vx ?q = fround (max (- 0.05) (min 0.05
      (fround (vx (particles s ! i) + strength * (x - px (particles s ! i))))))"
    "vy ?q = fround (max (- 0.05) (min 0.05
      (fround (vy (particles s ! i) + strength * (y - py (particles s ! i))))))"
    "vz ?q = fround (max (- 0.05) (min 0.05
      (fround (vz (particles s ! i) + strength * (z - pz (particles s ! i))))))"
    unfolding q attract_particle_velocity by (simp_all add: maxVel_def)
  have bounds: "\<bar>vx ?q\<bar> \<le> 13421773 / 2 ^ 28" "\<bar>vy ?q\<bar> \<le> 13421773 / 2 ^ 28"
    "\<bar>vz ?q\<bar> \<le> 13421773 / 2 ^ 28"
    unfolding q attract_particle_velocity by (rule limit_velocity_range)+
  have lim: "fround 0.05 = 13421773 / 2 ^ 28"
    using fround_limit(1) by simp
  show ?thesis
    using eqs bounds lim length_attractToPoint by blast
qed

theorem attractToPoint_force_then_clamp_witness:
  "0 < length (particles example_swarm)
   \<and> vx (particles (attractToPoint 10 0 0 1 example_swarm) ! 0) = 13421773 / 2 ^ 28
   \<and> vy (particles (attractToPoint 10 0 0 1 example_swarm) ! 0) = - (13421773 / 2 ^ 28)
   \<and> vz (particles (attractToPoint 10 0 0 1 example_swarm) ! 0) = 0
   \<and> \<bar>vx (particles (attractToPoint 10 0 0 1 example_swarm) ! 0)\<bar> \<le> 13421773 / 2 ^ 28"
  using attractToPoint_force_then_clamp [of 0 example_swarm 10 0 0 1]
  by (simp add: example_swarm_def example_particle_def fround_limit fround_large fround_zero)

subsection \<open>setScrollProgress\<close>

lemma map_over_indices: "map (\<lambda>i. f (xs ! i)) [0..<length xs] = map f xs"
  by (rule nth_equalityI) simp_all

lemma particles_attractToPoint:
  "particles (attractToPoint x y z strength s) = map (attract_particle x y z strength) (particles s)"
  by (simp add: attractToPoint_def map_over_indices)

text \<open>
  Claim C6. The force model follows the section of the scroll: for a progress with
  \<open>0.3 \<le> progress < 0.6\<close> the handler \<open>setScrollProgress\<close> leaves the particles as
  \<open>attractToPoint(2, 0, -3, 0.001)\<close> leaves them, and for a progress outside that
  range it applies no attraction, so that no particle changes.
\<close>

theorem setScrollProgress_selects_force_model:
  "(0.3 \<le> progress \<and> progress < 0.6 \<longrightarrow>
      particles (setScrollProgress progress s) = particles (attractToPoint 2 0 (- 3) 0.001 s))
   \<and> (progress < 0.3 \<or> 0.6 \<le> progress \<longrightarrow>
      particles (setScrollProgress progress s) = particles s)"
  by (simp add: setScrollProgress_def particles_attractToPoint)

theorem setScrollProgress_selects_force_model_witness:
  "(0.3::real) \<le> 0.4 \<and> (0.4::real) < 0.6
   \<and> particles (setScrollProgress 0.4 example_swarm) =
       [\<lparr>px = 0, py = 1, pz = 0, vx = 8589935 / 2 ^ 32, vy = - (8589935 / 2 ^ 33),
         vz = - (6442451 / 2 ^ 31), phase = 0\<rparr>]
   \<and> (0.6::real) \<le> 0.7
   \<and> particles (setScrollProgress 0.7 example_swarm) = particles example_swarm
   \<and> (0.1::real) < 0.3
   \<and> particles (setScrollProgress 0.1 example_swarm) = particles example_swarm"
  using setScrollProgress_selects_force_model [of "0.4" example_swarm]
    setScrollProgress_selects_force_model [of "0.7" example_swarm]
    setScrollProgress_selects_force_model [of "0.1" example_swarm]
  by (simp add: example_swarm_def example_particle_def attractToPoint_def attract_particle_def
      maxVel_def Let_def fround_small)

subsection \<open>update: the bounding box of the 50-particle system\<close>



lemma nth_FireflySystem_update:
  "i < length (particles s) \<Longrightarrow>
   particles (FireflySystem_update rnd s) ! i =
   change_direction (rnd i) (wrap_bounds (integrate (time s + 0.016) (particles s ! i)))"
  by (simp add: FireflySystem_update_def Let_def)

lemma length_FireflySystem_update:
  "length (particles (FireflySystem_update rnd s)) = length (particles s)"
  by (simp add: FireflySystem_update_def Let_def)


subsection \<open>update: the pulsing opacity\<close>

lemma time_FireflySystem_update: "time (FireflySystem_update rnd s) = time s + 0.016"
  by (simp add: FireflySystem_update_def Let_def)

lemma opacity_FireflySystem_update:
  "material_opacity (FireflySystem_update rnd s) = 0.3 + 0.4 * sin ((time s + 0.016) * 2)"
  by (simp add: FireflySystem_update_def Let_def)

lemma time_attractToPoint: "time (attractToPoint x y z strength s) = time s"
  by (simp add: attractToPoint_def)

lemma time_setScrollProgress: "time (setScrollProgress progress s) = time s"
  by (simp add: setScrollProgress_def time_attractToPoint)

lemma time_run_frames: "time (run_frames rnd n s) = time s + 0.016 * real n"
  by (induction n) (simp_all add: time_FireflySystem_update algebra_simps)

lemma sin_series_13:
  "(\<Sum>m<13. sin_coeff m * (x::real) ^ m) =
     x - x^3/6 + x^5/120 - x^7/5040 + x^9/362880 - x^11/39916800"
  by (simp add: lessThan_nat_numeral lessThan_Suc sin_coeff_def fact_numeral)

lemma sin_upper_13:
  assumes "0 \<le> (x::real)"
  shows "sin x \<le> x - x^3/6 + x^5/120 - x^7/5040 + x^9/362880 - x^11/39916800 + x^13/6227020800"
proof -
  have "\<bar>sin x - (\<Sum>m<13. sin_coeff m * x ^ m)\<bar> \<le> inverse (fact 13) * \<bar>x\<bar> ^ 13"
    by (rule Maclaurin_sin_bound)
  then have "sin x \<le> (\<Sum>m<13. sin_coeff m * x ^ m) + inverse (fact 13) * \<bar>x\<bar> ^ 13"
    by (simp only: abs_le_iff) linarith
  moreover have "inverse (fact 13) * \<bar>x\<bar> ^ 13 = x^13/6227020800"
    using assms by (simp add: fact_numeral)
  ultimately show ?thesis
    by (simp only: sin_series_13)
qed

lemma sin_4704: "sin (4.704::real) < - 0.75"
proof -
  have "sin (4.704::real) \<le> 4.704 - 4.704^3/6 + 4.704^5/120 - 4.704^7/5040 + 4.704^9/362880
        - 4.704^11/39916800 + 4.704^13/6227020800"
    by (rule sin_upper_13) simp
  also have "\<dots> < - 0.75"
    by (simp add: power_divide)
  finally show ?thesis .
qed

lemma opacity_after_147_frames:
  assumes "time s = 0"
  shows "material_opacity (run_frames rnd 147 s) < 0"
proof -
  have "run_frames rnd 147 s = FireflySystem_update (rnd 146) (run_frames rnd 146 s)"
    by (simp add: numeral_eq_Suc)
  then have "material_opacity (run_frames rnd 147 s) = 0.3 + 0.4 * sin ((time (run_frames rnd 146 s) + 0.016) * 2)"
    by (simp only: opacity_FireflySystem_update)
  also have "(time (run_frames rnd 146 s) + 0.016) * 2 = 4.704"
    using assms by (simp add: time_run_frames)
  finally show ?thesis
    using sin_4704 by simp
qed

text \<open>
  Claim C10. Every \<open>update\<close> assigns the material opacity \<open>0.3 + 0.4 * sin(2 * time)\<close>,
  with \<open>time\<close> the accumulated time after this update's increment. The value lies in
  \<open>[-0.1, 0.7]\<close> and is negative for some accumulated times: a system started at time 0
  has a negative opacity after 147 updates (time 2.352). The assignment does not depend
  on the opacity before it, so it overwrites what \<open>setScrollProgress\<close> stored earlier in
  the frame.
\<close>

theorem update_pulsing_opacity:
  "material_opacity (FireflySystem_update rnd s) =
     0.3 + 0.4 * sin (2 * time (FireflySystem_update rnd s))
   \<and> - 0.1 \<le> material_opacity (FireflySystem_update rnd s)
   \<and> material_opacity (FireflySystem_update rnd s) \<le> 0.7
   \<and> (time s = 0 \<longrightarrow> material_opacity (run_frames rnds 147 s) < 0)
   \<and> material_opacity (FireflySystem_update rnd (setScrollProgress progress s)) =
       material_opacity (FireflySystem_update rnd s)
   \<and> material_opacity (FireflySystem_update rnd (s\<lparr>material_opacity := a\<rparr>)) =
       material_opacity (FireflySystem_update rnd s)"
proof -
  have a: "material_opacity (FireflySystem_update rnd s) =
     0.3 + 0.4 * sin (2 * time (FireflySystem_update rnd s))"
    by (simp add: opacity_FireflySystem_update time_FireflySystem_update mult.commute)
  have "- 1 \<le> sin (2 * time (FireflySystem_update rnd s))"
    "sin (2 * time (FireflySystem_update rnd s)) \<le> 1"
    by simp_all
  then have b: "- 0.1 \<le> material_opacity (FireflySystem_update rnd s)"
    "material_opacity (FireflySystem_update rnd s) \<le> 0.7"
    unfolding a by linarith+
  have c: "time s = 0 \<longrightarrow> material_opacity (run_frames rnds 147 s) < 0"
    using opacity_after_147_frames by blast
  have d: "material_opacity (FireflySystem_update rnd (setScrollProgress progress s)) =
       material_opacity (FireflySystem_update rnd s)"
    by (simp add: opacity_FireflySystem_update time_setScrollProgress)
  have e: "material_opacity (FireflySystem_update rnd (s\<lparr>material_opacity := a\<rparr>)) =
       material_opacity (FireflySystem_update rnd s)"
    by (simp add: opacity_FireflySystem_update)
  from a b c d e show ?thesis by blast
qed

theorem update_pulsing_opacity_witness:
  "time example_swarm = 0 \<and> material_opacity (run_frames example_draws 147 example_swarm) < 0"
  using update_pulsing_opacity [of "example_draws 0" example_swarm example_draws 0 0]
  by (simp add: example_swarm_def)

section \<open>Properties of FirefliesSystem\<close>

subsection \<open>updateIntensity\<close>

text \<open>
  Claim C9. The glow intensity computed from the scroll progress is
  \<open>max(0.2, 1 - 0.8 * progress)\<close>, stored in the shader uniform and in the material
  opacity. For a progress in \<open>[0, 1]\<close> it lies in \<open>[0.2, 1]\<close>; it never increases when
  the progress increases; and it is never below 0.2.
\<close>

theorem updateIntensity_range_and_monotone:
  "uniform_glowIntensity (updateIntensity progress s) = max 0.2 (1 - 0.8 * progress)
   \<and> points_opacity (updateIntensity progress s) = max 0.2 (1 - 0.8 * progress)
   \<and> (0 \<le> progress \<and> progress \<le> 1 \<longrightarrow>
        0.2 \<le> uniform_glowIntensity (updateIntensity progress s)
        \<and> uniform_glowIntensity (updateIntensity progress s) \<le> 1)
   \<and> (progress \<le> progress' \<longrightarrow>
        uniform_glowIntensity (updateIntensity progress' s') \<le>
        uniform_glowIntensity (updateIntensity progress s))
   \<and> 0.2 \<le> uniform_glowIntensity (updateIntensity progress s)"
  by (simp add: updateIntensity_def Let_def max_def)

theorem updateIntensity_range_and_monotone_witness:
  "(0::real) \<le> 0.5 \<and> (0.5::real) \<le> 1
   \<and> uniform_glowIntensity (updateIntensity 0.5 example_fireflies) = 0.6
   \<and> uniform_glowIntensity (updateIntensity 1 example_fireflies) = 0.2
   \<and> uniform_glowIntensity (updateIntensity 1 example_fireflies)
       \<le> uniform_glowIntensity (updateIntensity 0.5 example_fireflies)"
  using updateIntensity_range_and_monotone [of "0.5" example_fireflies 1 example_fireflies]
  by (simp add: updateIntensity_def Let_def)

subsection \<open>update: the bounds of the 200-particle system\<close>

lemma py_float_particle:
  "py (reflect_bounds (float_particle t p)) = py p + (vy p + cos (t * 0.7 + phase p) * 0.005)"
  by (simp add: reflect_bounds_def float_particle_def Let_def)

lemma vy_float_particle:
  "vy (reflect_bounds (float_particle t p)) =
     (if py (reflect_bounds (float_particle t p)) < 1 \<or> py (reflect_bounds (float_particle t p)) > 16
      then - vy p else vy p)"
  by (simp add: reflect_bounds_def float_particle_def Let_def)

lemma nth_FirefliesSystem_update:
  "i < length (fireflies s) \<Longrightarrow>
   fireflies (FirefliesSystem_update deltaTime s) ! i =
   reflect_bounds (float_particle (sim_time s + deltaTime * speed s) (fireflies s ! i))"
  by (simp add: FirefliesSystem_update_def Let_def)

lemma length_FirefliesSystem_update:
  "length (fireflies (FirefliesSystem_update deltaTime s)) = length (fireflies s)"
  by (simp add: FirefliesSystem_update_def Let_def)

text \<open>
  Claim C2 asks that after every update each position component lies in the configured
  box, \<open>[1, 16]\<close> for the height of the 200-particle system, and that no component stays
  outside for more than one frame. \<open>FirefliesSystem.update\<close> only negates the velocity
  of a component that is outside and never moves the position back. The firefly
  \<open>stray_firefly\<close>, which the constructor can produce, starts at height 16.5; for every
  frame delta it is above 16 after the first update and still above 16 after the second,
  and the second update turns its velocity upwards again.
\<close>

theorem FirefliesSystem_update_leaves_box:
  "py (fireflies stray_system ! 0) = 16.5
   \<and> py (fireflies (FirefliesSystem_update dt stray_system) ! 0) > 16
   \<and> vy (fireflies (FirefliesSystem_update dt stray_system) ! 0) = - 0.004
   \<and> py (fireflies (FirefliesSystem_update dt' (FirefliesSystem_update dt stray_system)) ! 0) > 16
   \<and> vy (fireflies (FirefliesSystem_update dt' (FirefliesSystem_update dt stray_system)) ! 0) = 0.004"
proof -
  let ?s1 = "FirefliesSystem_update dt stray_system"
  let ?p1 = "fireflies ?s1 ! 0"
  let ?p2 = "fireflies (FirefliesSystem_update dt' ?s1) ! 0"
  define c1 where "c1 = cos ((sim_time stray_system + dt * speed stray_system) * 0.7 + phase stray_firefly)"
  define c2 where "c2 = cos ((sim_time ?s1 + dt' * speed ?s1) * 0.7 + phase ?p1)"
  have c1: "- 1 \<le> c1" and c2: "- 1 \<le> c2"
    by (simp_all add: c1_def c2_def)
  have p1: "?p1 = reflect_bounds (float_particle (sim_time stray_system + dt * speed stray_system) stray_firefly)"
    by (simp add: nth_FirefliesSystem_update stray_system_def)
  have y1: "py ?p1 = 16.5 + (0.004 + c1 * 0.005)"
    unfolding p1 py_float_particle c1_def by (simp add: stray_firefly_def)
  then have y1': "py ?p1 > 16" using c1 by simp
  have v1: "vy ?p1 = - 0.004"
    using y1' unfolding p1 vy_float_particle by (simp add: stray_firefly_def)
  have p2: "?p2 = reflect_bounds (float_particle (sim_time ?s1 + dt' * speed ?s1) ?p1)"
    by (simp add: nth_FirefliesSystem_update length_FirefliesSystem_update stray_system_def)
  have y2: "py ?p2 = py ?p1 + (vy ?p1 + c2 * 0.005)"
    unfolding p2 py_float_particle c2_def by simp
  then have y2': "py ?p2 > 16" using c1 c2 y1 v1 by simp
  have v2: "vy ?p2 = 0.004"
    using y2' v1 unfolding p2 vy_float_particle by simp
  have y0: "py (fireflies stray_system ! 0) = 16.5"
    by (simp add: stray_system_def stray_firefly_def)
  from y0 y1' v1 y2' v2 show ?thesis by blast
qed

section \<open>The integration step of both systems\<close>

lemma integrate_position:
  "px (integrate t p) = px p + vx p + cos ((phase p + t * 0.5) * 0.7) * 0.002"
  "py (integrate t p) = py p + vy p + sin (phase p + t * 0.5) * 0.003"
  "pz (integrate t p) = pz p + vz p + sin ((phase p + t * 0.5) * 0.3) * 0.002"
  by (simp_all add: integrate_def Let_def)

lemma float_particle_position:
  "px (reflect_bounds (float_particle t p)) = px p + vx p + sin (t + phase p) * 0.01"
  "py (reflect_bounds (float_particle t p)) = py p + vy p + cos (t * 0.7 + phase p) * 0.005"
  "pz (reflect_bounds (float_particle t p)) = pz p + vz p + sin (t * 0.8 + phase p) * 0.01"
  by (simp_all add: reflect_bounds_def float_particle_def Let_def)

lemma sim_time_FirefliesSystem_update:
  "sim_time (FirefliesSystem_update deltaTime s) = sim_time s + deltaTime * speed s"
  by (simp add: FirefliesSystem_update_def Let_def)

text \<open>
  Claim C4 says that a particle is integrated as \<open>position += velocity * dt\<close> plus the
  wandering offset. It is not: with a frame delta of 2 the first firefly of
  \<open>example_fireflies\<close> does not arrive where that formula puts it, and with a frame delta
  of 0 it moves all the same.
\<close>

theorem velocity_step_scaled_by_dt_counterexample:
  "px (fireflies (FirefliesSystem_update 2 example_fireflies) ! 0) \<noteq>
     px (fireflies example_fireflies ! 0) + vx (fireflies example_fireflies ! 0) * 2
     + sin (sim_time (FirefliesSystem_update 2 example_fireflies)
            + phase (fireflies example_fireflies ! 0)) * 0.01
   \<and> px (fireflies (FirefliesSystem_update 0 example_fireflies) ! 0) \<noteq>
     px (fireflies example_fireflies ! 0) + vx (fireflies example_fireflies ! 0) * 0
     + sin (sim_time (FirefliesSystem_update 0 example_fireflies)
            + phase (fireflies example_fireflies ! 0)) * 0.01"
  by (simp add: FirefliesSystem_update_def float_particle_def reflect_bounds_def
      example_fireflies_def Let_def)

text \<open>
  Claim C4 as amended. Both updates add the velocity itself, once per call, and a wandering
  offset of sines and cosines of the accumulated time and the particle's phase at several
  frequencies. The frame delta enters only through the accumulated time: \<open>FirefliesSystem\<close>
  adds \<open>deltaTime * speed\<close> to it, and \<open>FireflySystem\<close> takes no frame delta and adds
  0.016. In \<open>FireflySystem\<close> the integrated position is then wrapped into the box.
\<close>

theorem update_adds_velocity_per_frame:
  "(i < length (fireflies s) \<longrightarrow>
      px (fireflies (FirefliesSystem_update deltaTime s) ! i) =
        px (fireflies s ! i) + vx (fireflies s ! i)
        + sin (sim_time (FirefliesSystem_update deltaTime s) + phase (fireflies s ! i)) * 0.01
    \<and> py (fireflies (FirefliesSystem_update deltaTime s) ! i) =
        py (fireflies s ! i) + vy (fireflies s ! i)
        + cos (sim_time (FirefliesSystem_update deltaTime s) * 0.7 + phase (fireflies s ! i)) * 0.005
    \<and> pz (fireflies (FirefliesSystem_update deltaTime s) ! i) =
        pz (fireflies s ! i) + vz (fireflies s ! i)
        + sin (sim_time (FirefliesSystem_update deltaTime s) * 0.8 + phase (fireflies s ! i)) * 0.01)
   \<and> sim_time (FirefliesSystem_update deltaTime s) = sim_time s + deltaTime * speed s
   \<and> (j < length (particles s') \<longrightarrow>
      particles (FireflySystem_update rnd s') ! j =
        change_direction (rnd j) (wrap_bounds (integrate (time (FireflySystem_update rnd s')) (particles s' ! j))))
   \<and> time (FireflySystem_update rnd s') = time s' + 0.016
   \<and> px (integrate t p) = px p + vx p + cos ((phase p + t * 0.5) * 0.7) * 0.002
   \<and> py (integrate t p) = py p + vy p + sin (phase p + t * 0.5) * 0.003
   \<and> pz (integrate t p) = pz p + vz p + sin ((phase p + t * 0.5) * 0.3) * 0.002"
  by (simp add: nth_FirefliesSystem_update float_particle_position sim_time_FirefliesSystem_update
      nth_FireflySystem_update time_FireflySystem_update integrate_position)

theorem update_adds_velocity_per_frame_witness:
  "0 < length (fireflies example_fireflies)
   \<and> px (fireflies (FirefliesSystem_update 2 example_fireflies) ! 0) = 0.01 + sin 1 * 0.01
   \<and> px (fireflies (FirefliesSystem_update 4 example_fireflies) ! 0) = 0.01 + sin 2 * 0.01
   \<and> 0 < length (particles example_swarm)
   \<and> particles (FireflySystem_update (example_draws 0) example_swarm) ! 0 =
       change_direction (example_draws 0 0) (wrap_bounds (integrate 0.016 example_particle))
   \<and> px (integrate 0.016 example_particle) = cos 0.0056 * 0.002"
proof -
  have l1: "0 < length (fireflies example_fireflies)"
    by (simp add: example_fireflies_def)
  have l2: "0 < length (particles example_swarm)"
    by (simp add: example_swarm_def)
  have f0: "fireflies example_fireflies ! 0 =
      \<lparr>px = 0, py = 5, pz = 0, vx = 0.01, vy = 0, vz = 0, phase = 0\<rparr>"
    "sim_time example_fireflies = 0" "speed example_fireflies = 0.5"
    by (simp_all add: example_fireflies_def)
  have p0: "particles example_swarm ! 0 = example_particle" "time example_swarm = 0"
    by (simp_all add: example_swarm_def)
  have a: "px (fireflies (FirefliesSystem_update 2 example_fireflies) ! 0) = 0.01 + sin 1 * 0.01"
    using update_adds_velocity_per_frame [of 0 example_fireflies 2 0 example_swarm "example_draws 0"
        "0.016" example_particle] l1
    by (simp add: f0)
  have b: "px (fireflies (FirefliesSystem_update 4 example_fireflies) ! 0) = 0.01 + sin 2 * 0.01"
    using update_adds_velocity_per_frame [of 0 example_fireflies 4 0 example_swarm "example_draws 0"
        "0.016" example_particle] l1
    by (simp add: f0)
  have c: "particles (FireflySystem_update (example_draws 0) example_swarm) ! 0 =
       change_direction (example_draws 0 0) (wrap_bounds (integrate 0.016 example_particle))"
    using update_adds_velocity_per_frame [of 0 example_fireflies 2 0 example_swarm "example_draws 0"
        "0.016" example_particle] l2
    by (simp add: p0 time_FireflySystem_update)
  have d: "px (integrate 0.016 example_particle) = cos 0.0056 * 0.002"
    using update_adds_velocity_per_frame [of 0 example_fireflies 2 0 example_swarm "example_draws 0"
        "0.016" example_particle]
    by (simp add: example_particle_def)
  from l1 l2 a b c d show ?thesis by blast
qed

section \<open>Properties of the professional ScrollAnimations\<close>

subsection \<open>The video trigger\<close>

lemma videoTriggered_updateScene: "videoTriggered (updateScene progress s) = videoTriggered s"
  by (simp add: updateScene_def Let_def split: option.splits)

lemma videoTriggered_onUpdate:
  "videoTriggered (fst (onUpdate progress s)) = (videoTriggered s \<or> progress \<ge> 0.95)"
  by (auto simp: onUpdate_def Let_def videoTriggered_updateScene split: prod.splits if_splits)

lemma redirects_onUpdate:
  "redirects (snd (onUpdate progress s)) = (if progress \<ge> 0.95 \<and> \<not> videoTriggered s then 1 else 0)"
  by (auto simp: onUpdate_def Let_def redirects_def videoTriggered_updateScene split: prod.splits if_splits)

lemma videoTriggered_handle:
  "videoTriggered (fst (handle e s)) = (videoTriggered s \<or> reaches_threshold e)"
  by (cases e) (auto simp: videoTriggered_onUpdate onComplete_def)

lemma redirects_handle:
  "redirects (snd (handle e s)) = (if reaches_threshold e \<and> \<not> videoTriggered s then 1 else 0)"
proof (cases e)
  case (OnUpdate progress)
  then show ?thesis by (simp add: redirects_onUpdate)
next
  case OnComplete
  then show ?thesis by (simp add: onComplete_def redirects_def)
qed

lemma redirects_append: "redirects (xs @ ys) = redirects xs + redirects ys"
  by (simp add: redirects_def)

text \<open>
  The flag decides everything: a run redirects once when the flag is down at its start and
  some call reaches the threshold or completes, and never otherwise.
\<close>

lemma redirects_run:
  "redirects (snd (run es s)) =
     (if \<not> videoTriggered s \<and> (\<exists>e \<in> set es. reaches_threshold e) then 1 else 0)"
proof (induction es arbitrary: s)
  case Nil
  then show ?case by (simp add: redirects_def)
next
  case (Cons e es)
  obtain s1 out1 where h: "handle e s = (s1, out1)" by (cases "handle e s")
  obtain s2 out2 where r: "run es s1 = (s2, out2)" by (cases "run es s1")
  have vt: "videoTriggered s1 = (videoTriggered s \<or> reaches_threshold e)"
    using videoTriggered_handle [of e s] h by simp
  have r1: "redirects out1 = (if reaches_threshold e \<and> \<not> videoTriggered s then 1 else 0)"
    using redirects_handle [of e s] h by simp
  have r2: "redirects out2 =
      (if \<not> videoTriggered s1 \<and> (\<exists>e \<in> set es. reaches_threshold e) then 1 else 0)"
    using Cons.IH [of s1] r by simp
  have "redirects (snd (run (e # es) s)) = redirects out1 + redirects out2"
    by (simp add: h r redirects_append)
  then show ?case
    using vt r1 r2 by auto
qed

lemma example_scroll_effects:
  "snd (run example_scroll (constructed example_fireflies None (Some \<lparr>near = 20, far = 80\<rparr>))) =
     [LogProgress 0.5, LogProgress 0.96, LogTriggering, SetTimeoutRedirect 100, LogProgress 1]"
  by (simp add: example_scroll_def constructed_def onUpdate_def onComplete_def updateScene_def
      updateIntensity_def updateVisibility_def example_fireflies_def Let_def)

text \<open>
  Claim C1. The video trigger fires exactly once per scene lifetime. Whatever calls of
  \<open>onUpdate\<close> and \<open>onComplete\<close> arrive after construction, at most one redirect is emitted;
  when some \<open>onUpdate\<close> carries a progress of at least 0.95 exactly one is emitted, however
  often the progress moves around the threshold afterwards; and the same holds when
  \<open>onComplete\<close> arrives, so the two detection paths never fire twice between them.
\<close>

theorem video_trigger_fires_exactly_once:
  "redirects (snd (run es (constructed ff flower fg))) \<le> 1
   \<and> ((\<exists>progress. OnUpdate progress \<in> set es \<and> progress \<ge> 0.95) \<longrightarrow>
        redirects (snd (run es (constructed ff flower fg))) = 1)
   \<and> (OnComplete \<in> set es \<longrightarrow> redirects (snd (run es (constructed ff flower fg))) = 1)"
proof -
  have nt: "\<not> videoTriggered (constructed ff flower fg)"
    by (simp add: constructed_def)
  have a: "redirects (snd (run es (constructed ff flower fg))) \<le> 1"
    by (simp add: redirects_run)
  have b: "redirects (snd (run es (constructed ff flower fg))) = 1"
    if "\<exists>progress. OnUpdate progress \<in> set es \<and> progress \<ge> 0.95"
  proof -
    from that obtain progress where "OnUpdate progress \<in> set es" "progress \<ge> 0.95" by blast
    then have "\<exists>e \<in> set es. reaches_threshold e"
      by (intro bexI [of _ "OnUpdate progress"]) simp_all
    then show ?thesis using nt by (simp add: redirects_run)
  qed
  have c: "redirects (snd (run es (constructed ff flower fg))) = 1" if "OnComplete \<in> set es"
  proof -
    from that have "\<exists>e \<in> set es. reaches_threshold e"
      by (intro bexI [of _ OnComplete]) simp_all
    then show ?thesis using nt by (simp add: redirects_run)
  qed
  from a b c show ?thesis by blast
qed

theorem video_trigger_fires_exactly_once_witness:
  "(\<exists>progress. OnUpdate progress \<in> set example_scroll \<and> progress \<ge> 0.95)
   \<and> OnComplete \<in> set example_scroll
   \<and> redirects (snd (run example_scroll
        (constructed example_fireflies None (Some \<lparr>near = 20, far = 80\<rparr>)))) = 1"
proof -
  have h1: "\<exists>progress. OnUpdate progress \<in> set example_scroll \<and> progress \<ge> 0.95"
    by (rule exI [of _ "0.96"]) (simp add: example_scroll_def)
  have h2: "OnComplete \<in> set example_scroll"
    by (simp add: example_scroll_def)
  show ?thesis
    using video_trigger_fires_exactly_once
      [of example_scroll example_fireflies None "Some \<lparr>near = 20, far = 80\<rparr>"] h1 h2
    by blast
qed

section \<open>Progress outside the unit interval\<close>

lemma setScrollProgress_clamped:
  "setScrollProgress progress s = setScrollProgress (max 0 (min 1 progress)) s"
proof -
  consider "progress \<le> 0" | "0 < progress" "progress < 1" | "1 \<le> progress" by linarith
  then show ?thesis
  proof cases
    case 1
    then have "max 0 (min 1 progress) = 0" by simp
    with 1 show ?thesis by (simp add: setScrollProgress_def)
  next
    case 2
    then have "max 0 (min 1 progress) = progress" by simp
    then show ?thesis by simp
  next
    case 3
    then have "max 0 (min 1 progress) = 1" by simp
    with 3 show ?thesis by (simp add: setScrollProgress_def)
  qed
qed

lemma scene_fog_updateScene:
  "scene_fog (updateScene progress s) =
     (case scene_fog s of
        None \<Rightarrow> None
      | Some f \<Rightarrow> Some (f\<lparr>near := 50 - 30 * progress, far := 200 - 50 * progress\<rparr>))"
  by (simp add: updateScene_def Let_def mult.commute split: option.splits)

lemma firefliesSystem_updateScene:
  "firefliesSystem (updateScene progress s) = updateIntensity progress (firefliesSystem s)"
  by (simp add: updateScene_def Let_def split: option.splits)

text \<open>
  Claim C7 says that a progress outside \<open>[0, 1]\<close> gives the same state as the clamped
  value. For \<open>updateScene\<close> it does not: at progress 2 the fog is set to near -10 and far
  100, where the clamped value 1 gives 20 and 150; at progress -1 the glow intensity is 1.8,
  where the clamped value 0 gives 1.
\<close>

theorem updateScene_clamps_progress_counterexample:
  "scene_fog (updateScene 2 example_animations) = Some \<lparr>near = - 10, far = 100\<rparr>
   \<and> scene_fog (updateScene (max 0 (min 1 2)) example_animations) = Some \<lparr>near = 20, far = 150\<rparr>
   \<and> updateScene 2 example_animations \<noteq> updateScene (max 0 (min 1 2)) example_animations
   \<and> uniform_glowIntensity (firefliesSystem (updateScene (- 1) example_animations)) = 1.8
   \<and> uniform_glowIntensity (firefliesSystem (updateScene (max 0 (min 1 (- 1))) example_animations)) = 1
   \<and> updateScene (- 1) example_animations \<noteq> updateScene (max 0 (min 1 (- 1))) example_animations"
proof -
  have fg: "scene_fog example_animations = Some \<lparr>near = 20, far = 80\<rparr>"
    by (simp add: example_animations_def constructed_def)
  have a: "scene_fog (updateScene 2 example_animations) = Some \<lparr>near = - 10, far = 100\<rparr>"
    by (simp add: scene_fog_updateScene fg)
  have b: "scene_fog (updateScene (max 0 (min 1 2)) example_animations) = Some \<lparr>near = 20, far = 150\<rparr>"
    by (simp add: scene_fog_updateScene fg)
  from a b have c: "updateScene 2 example_animations \<noteq> updateScene (max 0 (min 1 2)) example_animations"
    by auto
  have d: "uniform_glowIntensity (firefliesSystem (updateScene (- 1) example_animations)) = 1.8"
    by (simp add: firefliesSystem_updateScene updateIntensity_def Let_def)
  have e: "uniform_glowIntensity (firefliesSystem (updateScene (max 0 (min 1 (- 1))) example_animations)) = 1"
    by (simp add: firefliesSystem_updateScene updateIntensity_def Let_def)
  from d e have f: "updateScene (- 1) example_animations \<noteq> updateScene (max 0 (min 1 (- 1))) example_animations"
    by auto
  from a b c d e f show ?thesis by blast
qed

text \<open>
  Claim C7 as amended. Neither handler fails on a progress outside \<open>[0, 1]\<close>, and only
  part of the state is clamped. \<open>setScrollProgress\<close> produces for every progress exactly
  the state it produces for the clamped value. \<open>updateScene\<close> does not clamp: it sets the
  fog to \<open>near = 50 - 30 * progress\<close> and \<open>far = 200 - 50 * progress\<close> from the raw
  progress, and the glow intensity to \<open>max(0.2, 1 - 0.8 * progress)\<close>, which agrees with
  the clamped value's for a progress above 1 and exceeds 1 for a progress below 0.
\<close>

theorem progress_outside_unit_interval:
  "setScrollProgress progress s = setScrollProgress (max 0 (min 1 progress)) s
   \<and> (scene_fog a = Some f \<longrightarrow>
        scene_fog (updateScene progress a) =
          Some (f\<lparr>near := 50 - 30 * progress, far := 200 - 50 * progress\<rparr>))
   \<and> (scene_fog a = None \<longrightarrow> scene_fog (updateScene progress a) = None)
   \<and> uniform_glowIntensity (firefliesSystem (updateScene progress a)) = max 0.2 (1 - 0.8 * progress)
   \<and> (1 \<le> progress \<longrightarrow>
        firefliesSystem (updateScene progress a) = firefliesSystem (updateScene 1 a))
   \<and> (progress < 0 \<longrightarrow>
        uniform_glowIntensity (firefliesSystem (updateScene progress a)) = 1 - 0.8 * progress
        \<and> 1 < uniform_glowIntensity (firefliesSystem (updateScene progress a)))"
proof -
  have a: "setScrollProgress progress s = setScrollProgress (max 0 (min 1 progress)) s"
    by (rule setScrollProgress_clamped)
  have b: "scene_fog a = Some f \<longrightarrow>
        scene_fog (updateScene progress a) =
          Some (f\<lparr>near := 50 - 30 * progress, far := 200 - 50 * progress\<rparr>)"
    by (simp add: scene_fog_updateScene)
  have c: "scene_fog a = None \<longrightarrow> scene_fog (updateScene progress a) = None"
    by (simp add: scene_fog_updateScene)
  have d: "uniform_glowIntensity (firefliesSystem (updateScene progress a)) = max 0.2 (1 - 0.8 * progress)"
    by (simp add: firefliesSystem_updateScene updateIntensity_def Let_def)
  have e: "1 \<le> progress \<longrightarrow>
        firefliesSystem (updateScene progress a) = firefliesSystem (updateScene 1 a)"
    by (simp add: firefliesSystem_updateScene updateIntensity_def Let_def max_def)
  have f: "progress < 0 \<longrightarrow>
        uniform_glowIntensity (firefliesSystem (updateScene progress a)) = 1 - 0.8 * progress
        \<and> 1 < uniform_glowIntensity (firefliesSystem (updateScene progress a))"
    by (simp add: firefliesSystem_updateScene updateIntensity_def Let_def max_def)
  from a b c d e f show ?thesis by blast
qed

theorem progress_outside_unit_interval_witness:
  "setScrollProgress 1.5 example_swarm = setScrollProgress 1 example_swarm
   \<and> scene_fog example_animations = Some \<lparr>near = 20, far = 80\<rparr>
   \<and> scene_fog (updateScene 1.5 example_animations) = Some \<lparr>near = 5, far = 125\<rparr>
   \<and> (1::real) \<le> 1.5
   \<and> firefliesSystem (updateScene 1.5 example_animations) = firefliesSystem (updateScene 1 example_animations)
   \<and> (- 0.5::real) < 0
   \<and> uniform_glowIntensity (firefliesSystem (updateScene (- 0.5) example_animations)) = 1.4
   \<and> scene_fog (constructed example_fireflies None None) = None
   \<and> scene_fog (updateScene 1.5 (constructed example_fireflies None None)) = None"
proof -
  have fg: "scene_fog example_animations = Some \<lparr>near = 20, far = 80\<rparr>"
    by (simp add: example_animations_def constructed_def)
  have nf: "scene_fog (constructed example_fireflies None None) = None"
    by (simp add: constructed_def)
  have a: "setScrollProgress 1.5 example_swarm = setScrollProgress 1 example_swarm"
    using progress_outside_unit_interval [of "1.5" example_swarm example_animations "\<lparr>near = 20, far = 80\<rparr>"]
    by simp
  have b: "scene_fog (updateScene 1.5 example_animations) = Some \<lparr>near = 5, far = 125\<rparr>"
    and c: "firefliesSystem (updateScene 1.5 example_animations) = firefliesSystem (updateScene 1 example_animations)"
    using progress_outside_unit_interval [of "1.5" example_swarm example_animations "\<lparr>near = 20, far = 80\<rparr>"] fg
    by simp_all
  have d: "uniform_glowIntensity (firefliesSystem (updateScene (- 0.5) example_animations)) = 1.4"
    using progress_outside_unit_interval [of "- 0.5" example_swarm example_animations "\<lparr>near = 20, far = 80\<rparr>"]
    by simp
  have e: "scene_fog (updateScene 1.5 (constructed example_fireflies None None)) = None"
    using progress_outside_unit_interval [of "1.5" example_swarm "constructed example_fireflies None None" "\<lparr>near = 20, far = 80\<rparr>"] nf
    by simp
  from a fg b c d nf e show ?thesis by simp
qed

section \<open>Properties of the ScrollAnimations of animations.js\<close>

lemma camera_handleScrollProgress:
  "camera_position (handleScrollProgress now progress s) = camera_position s"
  "camera_rotation (handleScrollProgress now progress s) = camera_rotation s"
  by (simp_all add: handleScrollProgress_def updateModelVisibility_def adjustLighting_def Let_def
      split: option.splits)

lemma forestModel_handleScrollProgress:
  "forestModel (handleScrollProgress now progress s) =
     map_option (\<lambda>m. m\<lparr>visible := (progress < 0.8)\<rparr>) (forestModel s)"
  by (simp add: handleScrollProgress_def updateModelVisibility_def adjustLighting_def Let_def
      split: option.splits)

lemma orangeModel_handleScrollProgress:
  "orangeModel (handleScrollProgress now progress s) =
     map_option (\<lambda>m. if visible m then m\<lparr>rotation_y := rotation_y m + 0.01\<rparr> else m) (orangeModel s)"
  by (simp add: handleScrollProgress_def updateModelVisibility_def adjustLighting_def Let_def
      split: option.splits)

lemma logoModel_handleScrollProgress:
  "logoModel (handleScrollProgress now progress s) =
     map_option (\<lambda>m. if visible m
                      then m\<lparr>rotation_y := rotation_y m + 0.02, rotation_x := sin (now * 0.001) * 0.1\<rparr>
                      else m) (logoModel s)"
  by (simp add: handleScrollProgress_def updateModelVisibility_def adjustLighting_def Let_def
      split: option.splits)

lemma app_fireflies_handleScrollProgress:
  "app_fireflies (handleScrollProgress now progress s) =
     map_option (setScrollProgress progress) (app_fireflies s)"
  by (simp add: handleScrollProgress_def updateModelVisibility_def adjustLighting_def Let_def
      split: option.splits)

lemma setScrollProgress_twice_outside:
  "progress < 0.3 \<or> 0.6 \<le> progress \<Longrightarrow>
   setScrollProgress progress (setScrollProgress progress s) = setScrollProgress progress s"
  by (auto simp: setScrollProgress_def)

lemma particles_setScrollProgress_twice_inside:
  "0.3 \<le> progress \<Longrightarrow> progress < 0.6 \<Longrightarrow>
   particles (setScrollProgress progress (setScrollProgress progress s)) =
     map (attract_particle 2 0 (- 3) 0.001) (map (attract_particle 2 0 (- 3) 0.001) (particles s))"
  by (simp add: setScrollProgress_def particles_attractToPoint)

text \<open>
  Claim C3 says that a second call of the scroll-progress handler with the same progress
  changes nothing. It does: on \<open>example_scene\<close> at progress 0.4 the orange model's
  rotation is 0.01 after one call and 0.02 after two, and the particle's velocity is
  \<open>(0.002, -0.001, -0.003)\<close>, rounded to single precision, after one call and twice
  that after two.
\<close>

theorem handleScrollProgress_idempotent_counterexample:
  "orangeModel (handleScrollProgress 0 0.4 example_scene) = Some (example_model\<lparr>rotation_y := 0.01\<rparr>)
   \<and> orangeModel (handleScrollProgress 0 0.4 (handleScrollProgress 0 0.4 example_scene)) =
       Some (example_model\<lparr>rotation_y := 0.02\<rparr>)
   \<and> map_option particles (app_fireflies (handleScrollProgress 0 0.4 example_scene)) =
       Some [\<lparr>px = 0, py = 1, pz = 0, vx = 8589935 / 2 ^ 32, vy = - (8589935 / 2 ^ 33),
             vz = - (6442451 / 2 ^ 31), phase = 0\<rparr>]
   \<and> map_option particles
         (app_fireflies (handleScrollProgress 0 0.4 (handleScrollProgress 0 0.4 example_scene))) =
       Some [\<lparr>px = 0, py = 1, pz = 0, vx = 8589935 / 2 ^ 31, vy = - (8589935 / 2 ^ 32),
             vz = - (6442451 / 2 ^ 30), phase = 0\<rparr>]
   \<and> handleScrollProgress 0 0.4 (handleScrollProgress 0 0.4 example_scene) \<noteq>
       handleScrollProgress 0 0.4 example_scene"
proof -
  have a: "orangeModel (handleScrollProgress 0 0.4 example_scene) = Some (example_model\<lparr>rotation_y := 0.01\<rparr>)"
    by (simp add: orangeModel_handleScrollProgress example_scene_def example_model_def)
  have b: "orangeModel (handleScrollProgress 0 0.4 (handleScrollProgress 0 0.4 example_scene)) =
       Some (example_model\<lparr>rotation_y := 0.02\<rparr>)"
    by (simp add: orangeModel_handleScrollProgress example_scene_def example_model_def)
  have c: "map_option particles (app_fireflies (handleScrollProgress 0 0.4 example_scene)) =
       Some [\<lparr>px = 0, py = 1, pz = 0, vx = 8589935 / 2 ^ 32, vy = - (8589935 / 2 ^ 33),
             vz = - (6442451 / 2 ^ 31), phase = 0\<rparr>]"
    by (simp add: app_fireflies_handleScrollProgress example_scene_def setScrollProgress_def
        particles_attractToPoint example_swarm_def example_particle_def attract_particle_def
        maxVel_def Let_def fround_small fround_small_twice)
  have d: "map_option particles
         (app_fireflies (handleScrollProgress 0 0.4 (handleScrollProgress 0 0.4 example_scene))) =
       Some [\<lparr>px = 0, py = 1, pz = 0, vx = 8589935 / 2 ^ 31, vy = - (8589935 / 2 ^ 32),
             vz = - (6442451 / 2 ^ 30), phase = 0\<rparr>]"
    by (simp add: app_fireflies_handleScrollProgress example_scene_def setScrollProgress_def
        particles_attractToPoint example_swarm_def example_particle_def attract_particle_def
        maxVel_def Let_def fround_small fround_small_twice)
  have "orangeModel (handleScrollProgress 0 0.4 (handleScrollProgress 0 0.4 example_scene)) \<noteq>
      orangeModel (handleScrollProgress 0 0.4 example_scene)"
    unfolding a b by (simp add: example_model_def)
  then have e: "handleScrollProgress 0 0.4 (handleScrollProgress 0 0.4 example_scene) \<noteq>
       handleScrollProgress 0 0.4 example_scene"
    by auto
  from a b c d e show ?thesis by blast
qed

text \<open>
  Claim C3 as amended. A second call of \<open>handleScrollProgress\<close> with the same progress
  (and the same clock reading) leaves the camera pose and the forest model exactly as
  after the first call, and for a progress below 0.3 or from 0.6 on it leaves the swarm,
  and so the particle velocities, as after the first call. The other parts advance with
  every call: a visible orange model turns by 0.01 and a visible logo model by 0.02 about
  the y axis per call, and for \<open>0.3 \<le> progress < 0.6\<close> every call applies the
  attraction to the velocities again. A model that is not visible is left alone.
\<close>

theorem handleScrollProgress_twice:
  "camera_position (handleScrollProgress now progress (handleScrollProgress now progress s)) =
     camera_position (handleScrollProgress now progress s)
   \<and> camera_rotation (handleScrollProgress now progress (handleScrollProgress now progress s)) =
     camera_rotation (handleScrollProgress now progress s)
   \<and> forestModel (handleScrollProgress now progress (handleScrollProgress now progress s)) =
     forestModel (handleScrollProgress now progress s)
   \<and> (progress < 0.3 \<or> 0.6 \<le> progress \<longrightarrow>
        app_fireflies (handleScrollProgress now progress (handleScrollProgress now progress s)) =
        app_fireflies (handleScrollProgress now progress s))
   \<and> (0.3 \<le> progress \<and> progress < 0.6 \<and> app_fireflies s = Some f \<longrightarrow>
        map_option particles
          (app_fireflies (handleScrollProgress now progress (handleScrollProgress now progress s))) =
        Some (map (attract_particle 2 0 (- 3) 0.001)
               (map (attract_particle 2 0 (- 3) 0.001) (particles f))))
   \<and> (orangeModel s = Some m \<and> visible m \<longrightarrow>
        orangeModel (handleScrollProgress now progress s) =
          Some (m\<lparr>rotation_y := rotation_y m + 0.01\<rparr>)
        \<and> orangeModel (handleScrollProgress now progress (handleScrollProgress now progress s)) =
          Some (m\<lparr>rotation_y := rotation_y m + 0.01 + 0.01\<rparr>))
   \<and> (logoModel s = Some m' \<and> visible m' \<longrightarrow>
        map_option rotation_y (logoModel (handleScrollProgress now progress s)) =
          Some (rotation_y m' + 0.02)
        \<and> map_option rotation_y
            (logoModel (handleScrollProgress now progress (handleScrollProgress now progress s))) =
          Some (rotation_y m' + 0.02 + 0.02))
   \<and> (orangeModel s = Some m \<and> \<not> visible m \<longrightarrow>
        orangeModel (handleScrollProgress now progress (handleScrollProgress now progress s)) =
        orangeModel (handleScrollProgress now progress s))
   \<and> (logoModel s = Some m' \<and> \<not> visible m' \<longrightarrow>
        logoModel (handleScrollProgress now progress (handleScrollProgress now progress s)) =
        logoModel (handleScrollProgress now progress s))"
proof -
  let ?h = "handleScrollProgress now progress"
  have a: "camera_position (?h (?h s)) = camera_position (?h s)"
    "camera_rotation (?h (?h s)) = camera_rotation (?h s)"
    by (simp_all add: camera_handleScrollProgress)
  have b: "forestModel (?h (?h s)) = forestModel (?h s)"
    by (cases "forestModel s") (simp_all add: forestModel_handleScrollProgress)
  have c: "progress < 0.3 \<or> 0.6 \<le> progress \<longrightarrow> app_fireflies (?h (?h s)) = app_fireflies (?h s)"
    by (cases "app_fireflies s")
      (auto simp: app_fireflies_handleScrollProgress setScrollProgress_twice_outside)
  have d: "0.3 \<le> progress \<and> progress < 0.6 \<and> app_fireflies s = Some f \<longrightarrow>
        map_option particles (app_fireflies (?h (?h s))) =
        Some (map (attract_particle 2 0 (- 3) 0.001)
               (map (attract_particle 2 0 (- 3) 0.001) (particles f)))"
    by (auto simp: app_fireflies_handleScrollProgress particles_setScrollProgress_twice_inside)
  have e: "orangeModel s = Some m \<and> visible m \<longrightarrow>
        orangeModel (?h s) = Some (m\<lparr>rotation_y := rotation_y m + 0.01\<rparr>)
        \<and> orangeModel (?h (?h s)) = Some (m\<lparr>rotation_y := rotation_y m + 0.01 + 0.01\<rparr>)"
    by (simp add: orangeModel_handleScrollProgress)
  have f: "logoModel s = Some m' \<and> visible m' \<longrightarrow>
        map_option rotation_y (logoModel (?h s)) = Some (rotation_y m' + 0.02)
        \<and> map_option rotation_y (logoModel (?h (?h s))) = Some (rotation_y m' + 0.02 + 0.02)"
    by (simp add: logoModel_handleScrollProgress)
  have g: "orangeModel s = Some m \<and> \<not> visible m \<longrightarrow> orangeModel (?h (?h s)) = orangeModel (?h s)"
    by (simp add: orangeModel_handleScrollProgress)
  have h: "logoModel s = Some m' \<and> \<not> visible m' \<longrightarrow> logoModel (?h (?h s)) = logoModel (?h s)"
    by (simp add: logoModel_handleScrollProgress)
  from a b c d e f g h show ?thesis by blast
qed

theorem handleScrollProgress_twice_witness:
  "(0.3::real) \<le> 0.4 \<and> (0.4::real) < 0.6 \<and> app_fireflies example_scene = Some example_swarm
   \<and> map_option particles
         (app_fireflies (handleScrollProgress 0 0.4 (handleScrollProgress 0 0.4 example_scene))) =
       Some (map (attract_particle 2 0 (- 3) 0.001)
              (map (attract_particle 2 0 (- 3) 0.001) (particles example_swarm)))
   \<and> orangeModel example_scene = Some example_model \<and> visible example_model
   \<and> orangeModel (handleScrollProgress 0 0.4 (handleScrollProgress 0 0.4 example_scene)) =
       Some (example_model\<lparr>rotation_y := 0.02\<rparr>)
   \<and> logoModel example_scene = Some (example_model\<lparr>visible := False\<rparr>)
   \<and> \<not> visible (example_model\<lparr>visible := False\<rparr>)
   \<and> logoModel (handleScrollProgress 0 0.4 (handleScrollProgress 0 0.4 example_scene)) =
       logoModel (handleScrollProgress 0 0.4 example_scene)
   \<and> (0.6::real) \<le> 0.7
   \<and> app_fireflies (handleScrollProgress 0 0.7 (handleScrollProgress 0 0.7 example_scene)) =
       app_fireflies (handleScrollProgress 0 0.7 example_scene)
   \<and> orangeModel example_scene_logo = Some (example_model\<lparr>visible := False\<rparr>)
   \<and> orangeModel (handleScrollProgress 0 0.7 (handleScrollProgress 0 0.7 example_scene_logo)) =
       orangeModel (handleScrollProgress 0 0.7 example_scene_logo)
   \<and> logoModel example_scene_logo = Some example_model
   \<and> map_option rotation_y
        (logoModel (handleScrollProgress 0 0.7 (handleScrollProgress 0 0.7 example_scene_logo))) =
       Some 0.04"
proof -
  let ?hidden = "example_model\<lparr>visible := False\<rparr>"
  have s1: "app_fireflies example_scene = Some example_swarm"
    "orangeModel example_scene = Some example_model"
    "logoModel example_scene = Some ?hidden"
    by (simp_all add: example_scene_def)
  have s2: "orangeModel example_scene_logo = Some ?hidden"
    "logoModel example_scene_logo = Some example_model"
    by (simp_all add: example_scene_logo_def example_scene_def)
  have v: "visible example_model" "\<not> visible ?hidden" "rotation_y example_model = 0"
    by (simp_all add: example_model_def)
  note t1 = handleScrollProgress_twice [of 0 "0.4" example_scene example_swarm example_model ?hidden]
  note t2 = handleScrollProgress_twice [of 0 "0.7" example_scene example_swarm example_model ?hidden]
  note t3 = handleScrollProgress_twice [of 0 "0.7" example_scene_logo example_swarm ?hidden example_model]
  have a: "map_option particles
         (app_fireflies (handleScrollProgress 0 0.4 (handleScrollProgress 0 0.4 example_scene))) =
       Some (map (attract_particle 2 0 (- 3) 0.001)
              (map (attract_particle 2 0 (- 3) 0.001) (particles example_swarm)))"
    using t1 s1 by simp
  have b: "orangeModel (handleScrollProgress 0 0.4 (handleScrollProgress 0 0.4 example_scene)) =
       Some (example_model\<lparr>rotation_y := 0.02\<rparr>)"
    using t1 s1 v by simp
  have c: "logoModel (handleScrollProgress 0 0.4 (handleScrollProgress 0 0.4 example_scene)) =
       logoModel (handleScrollProgress 0 0.4 example_scene)"
    using t1 s1 v by simp
  have d: "app_fireflies (handleScrollProgress 0 0.7 (handleScrollProgress 0 0.7 example_scene)) =
       app_fireflies (handleScrollProgress 0 0.7 example_scene)"
    using t2 by simp
  have e: "orangeModel (handleScrollProgress 0 0.7 (handleScrollProgress 0 0.7 example_scene_logo)) =
       orangeModel (handleScrollProgress 0 0.7 example_scene_logo)"
    using t3 s2 v by simp
  have f: "map_option rotation_y
        (logoModel (handleScrollProgress 0 0.7 (handleScrollProgress 0 0.7 example_scene_logo))) =
       Some 0.04"
    using t3 s2 v by simp
  from s1 s2 v a b c d e f show ?thesis by simp
qed

section \<open>Finite values in every frame\<close>












end
